theory Spec2Isabelle
  imports Main "HOL-Library.AList"
begin

section \<open>The JavaScript values the handlers compute with\<close>

text \<open>
  The server keeps its state in plain JavaScript objects and reads its inputs from a
  JSON body. The fields that name a meeting or a user are modelled as JSON scalars or
  an absent field (\<open>undefined\<close>); JSON numbers, arrays and objects in these fields are
  left out of the model.
\<close>

datatype jsval = JUndefined | JNull | JBool bool | JStr string

text \<open>\<open>!v\<close>: the values JavaScript treats as false.\<close>

fun falsy :: "jsval \<Rightarrow> bool" where
  "falsy JUndefined = True"
| "falsy JNull = True"
| "falsy (JBool b) = (\<not> b)"
| "falsy (JStr s) = (s = [])"

text \<open>\<open>a || b\<close> on values.\<close>

definition jsOr :: "jsval \<Rightarrow> jsval \<Rightarrow> jsval" where
  "jsOr a b = (if falsy a then b else a)"

text \<open>\<open>obj[v]\<close> converts \<open>v\<close> to a property key, a string.\<close>

fun toPropertyKey :: "jsval \<Rightarrow> string" where
  "toPropertyKey JUndefined = ''undefined''"
| "toPropertyKey JNull = ''null''"
| "toPropertyKey (JBool b) = (if b then ''true'' else ''false'')"
| "toPropertyKey (JStr s) = s"

subsection \<open>Plain objects used as dictionaries\<close>

text \<open>
  \<open>meetings\<close>, every \<open>attendees\<close> and \<open>languageMapping\<close> are object literals, so their
  prototype is \<open>Object.prototype\<close>. A read \<open>obj[k]\<close> yields the own property \<open>k\<close> when
  there is one, else the member of \<open>Object.prototype\<close> of that name (a function, or for
  \<open>__proto__\<close> the prototype itself: each of them truthy), else \<open>undefined\<close>.
  \<open>Object.prototype\<close> has the members the runtime gives it, listed below.
  The own properties are an association list in insertion order, which is the order
  of \<open>Object.keys\<close> for keys that are not array indices.
\<close>

definition objectPrototypeKeys :: "string list" where
  "objectPrototypeKeys =
     [''constructor'', ''__defineGetter__'', ''__defineSetter__'', ''hasOwnProperty'',
      ''__lookupGetter__'', ''__lookupSetter__'', ''isPrototypeOf'',
      ''propertyIsEnumerable'', ''toString'', ''valueOf'', ''__proto__'',
      ''toLocaleString'']"

datatype 'a property = Own 'a | Inherited | Missing

definition getProp :: "(string \<times> 'a) list \<Rightarrow> string \<Rightarrow> 'a property" where
  "getProp obj k =
     (case map_of obj k of
        Some v \<Rightarrow> Own v
      | None \<Rightarrow> if k \<in> set objectPrototypeKeys then Inherited else Missing)"

text \<open>
  \<open>obj[k] = v\<close> replaces or appends the own property. For \<open>k = "__proto__"\<close> the
  assignment calls the inherited setter, which adds no own property; the prototype
  it installs is not part of this model.
\<close>

definition setProp :: "string \<Rightarrow> 'a \<Rightarrow> (string \<times> 'a) list \<Rightarrow> (string \<times> 'a) list" where
  "setProp k v obj = (if k = ''__proto__'' then obj else AList.update k v obj)"

text \<open>\<open>delete obj[k]\<close> removes an own property and is silent when there is none.\<close>

definition deleteProp :: "string \<Rightarrow> (string \<times> 'a) list \<Rightarrow> (string \<times> 'a) list" where
  "deleteProp k obj = AList.delete k obj"

definition keys :: "(string \<times> 'a) list \<Rightarrow> string list" where
  "keys obj = map fst obj"

subsection \<open>Strings\<close>

text \<open>\<open>s.includes(sub)\<close>.\<close>

fun startsWith :: "string \<Rightarrow> string \<Rightarrow> bool" where
  "startsWith s [] = True"
| "startsWith [] (c # sub) = False"
| "startsWith (d # s) (c # sub) = (d = c \<and> startsWith s sub)"

fun includesStr :: "string \<Rightarrow> string \<Rightarrow> bool" where
  "includesStr [] sub = (sub = [])"
| "includesStr (d # s) sub = (if startsWith (d # s) sub then True else includesStr s sub)"

subsection \<open>Dates\<close>

text \<open>
  A time value is a number of milliseconds since the epoch, read from the clock by
  \<open>Date.now()\<close> and \<open>new Date()\<close>; the handlers take it as the argument \<open>now\<close>.
  \<open>toISOString\<close> renders it as \<open>YYYY-MM-DDTHH:mm:ss.sssZ\<close>, with a sign and six digits
  for a year outside 0..9999. The calendar date comes from the day number by the
  usual closed form for the proleptic Gregorian calendar.
\<close>

definition Day :: "int \<Rightarrow> int" where
  "Day t = t div 86400000"

definition HourFromTime :: "int \<Rightarrow> int" where
  "HourFromTime t = (t div 3600000) mod 24"

definition MinFromTime :: "int \<Rightarrow> int" where
  "MinFromTime t = (t div 60000) mod 60"

definition SecFromTime :: "int \<Rightarrow> int" where
  "SecFromTime t = (t div 1000) mod 60"

definition msFromTime :: "int \<Rightarrow> int" where
  "msFromTime t = t mod 1000"

text \<open>Year, month (1..12) and day of the month of a day number.\<close>

definition civilFromDay :: "int \<Rightarrow> int \<times> int \<times> int" where
  "civilFromDay z =
     (let z1 = z + 719468;
          era = z1 div 146097;
          doe = z1 - era * 146097;
          yoe = (doe - doe div 1460 + doe div 36524 - doe div 146096) div 365;
          doy = doe - (365 * yoe + yoe div 4 - yoe div 100);
          mp = (5 * doy + 2) div 153;
          d = doy - (153 * mp + 2) div 5 + 1;
          m = (if mp < 10 then mp + 3 else mp - 9);
          y = yoe + era * 400
      in (if m \<le> 2 then y + 1 else y, m, d))"

definition digitChar :: "int \<Rightarrow> char" where
  "digitChar d = ''0123456789'' ! nat (d mod 10)"

definition pad2 :: "int \<Rightarrow> string" where
  "pad2 n = [digitChar (n div 10), digitChar n]"

definition pad3 :: "int \<Rightarrow> string" where
  "pad3 n = digitChar (n div 100) # pad2 n"

definition pad4 :: "int \<Rightarrow> string" where
  "pad4 n = digitChar (n div 1000) # pad3 n"

definition pad6 :: "int \<Rightarrow> string" where
  "pad6 n = digitChar (n div 100000) # digitChar (n div 10000) # pad4 n"

definition yearString :: "int \<Rightarrow> string" where
  "yearString y =
     (if 0 \<le> y \<and> y \<le> 9999 then pad4 y
      else if y < 0 then CHR ''-'' # pad6 (- y)
      else CHR ''+'' # pad6 y)"

definition toISOString :: "int \<Rightarrow> string" where
  "toISOString t =
     (case civilFromDay (Day t) of
        (y, m, d) \<Rightarrow>
          yearString y @ ''-'' @ pad2 m @ ''-'' @ pad2 d @ ''T'' @
          pad2 (HourFromTime t) @ '':'' @ pad2 (MinFromTime t) @ '':'' @
          pad2 (SecFromTime t) @ ''.'' @ pad3 (msFromTime t) @ ''Z'')"

subsection \<open>Numbers\<close>

text \<open>
  The only arithmetic of the program is the reaper's \<open>now - creationTime > EXPIRY_MS\<close>.
  Its numbers are millisecond counts, modelled as integers, and \<open>NaN\<close>. Subtraction
  converts a string operand to a number: surrounding white space is dropped, the empty
  string is 0, an optionally signed run of decimal digits is that integer. Every
  other string is \<open>NaN\<close> here. The literals with a fraction, an exponent, a radix
  prefix or \<open>Infinity\<close>, which JavaScript also reads as numbers, are not modelled:
  they are made of digits, signs, white space, \<open>.\<close> and letters of \<open>Infinity\<close>,
  \<open>eExXoObB\<close> and \<open>a-fA-F\<close> only, and the one string the program subtracts is an
  output of \<open>toISOString\<close>, which holds \<open>:\<close> and \<open>Z\<close>.
\<close>

datatype jsnum = NaN | Num int

definition isWhiteSpace :: "char \<Rightarrow> bool" where
  "isWhiteSpace c = (c \<in> set [CHR 0x09, CHR 0x0A, CHR 0x0B, CHR 0x0C, CHR 0x0D, CHR '' ''])"

definition trimString :: "string \<Rightarrow> string" where
  "trimString s = rev (dropWhile isWhiteSpace (rev (dropWhile isWhiteSpace s)))"

definition isDigit :: "char \<Rightarrow> bool" where
  "isDigit c = (c \<in> set ''0123456789'')"

definition digitValue :: "char \<Rightarrow> int" where
  "digitValue c = int (of_char c) - 48"

fun digitsValue :: "int \<Rightarrow> string \<Rightarrow> int" where
  "digitsValue acc [] = acc"
| "digitsValue acc (c # cs) = digitsValue (10 * acc + digitValue c) cs"

definition unsignedInteger :: "string \<Rightarrow> jsnum" where
  "unsignedInteger s = (if s \<noteq> [] \<and> list_all isDigit s then Num (digitsValue 0 s) else NaN)"

definition jsNegate :: "jsnum \<Rightarrow> jsnum" where
  "jsNegate x = (case x of NaN \<Rightarrow> NaN | Num n \<Rightarrow> Num (- n))"

definition StringToNumber :: "string \<Rightarrow> jsnum" where
  "StringToNumber s =
     (case trimString s of
        [] \<Rightarrow> Num 0
      | c # r \<Rightarrow>
          if c = CHR ''+'' then unsignedInteger r
          else if c = CHR ''-'' then jsNegate (unsignedInteger r)
          else unsignedInteger (c # r))"

text \<open>\<open>a - b\<close> and \<open>a > b\<close> on numbers: \<open>NaN\<close> propagates and compares false.\<close>

fun jsMinus :: "jsnum \<Rightarrow> jsnum \<Rightarrow> jsnum" where
  "jsMinus (Num a) (Num b) = Num (a - b)"
| "jsMinus _ _ = NaN"

fun jsGreater :: "jsnum \<Rightarrow> jsnum \<Rightarrow> bool" where
  "jsGreater (Num a) (Num b) = (b < a)"
| "jsGreater _ _ = False"


section \<open>The registry and the remote gateway\<close>

text \<open>
  What the provider returns is kept as it comes. Of the meeting object the handlers
  modelled here read \<open>MeetingId\<close> and \<open>ExternalMeetingId\<close>; of the attendee object
  they read nothing.
\<close>

record chime_meeting =
  MeetingId :: string
  ExternalMeetingId :: "string option"

datatype chime_attendee = ChimeAttendee string

text \<open>An entry of \<open>attendees\<close>, as the join handler stores it.\<close>

record attendee =
  userId :: jsval
  userName :: jsval
  joinTime :: string
  attendeeInfo :: "chime_attendee option"

text \<open>\<open>transcriptionMethod\<close> is absent until a start sets it to \<open>'aws'\<close> or \<open>'alternative'\<close>.\<close>

datatype transcription_method = aws | alternative

text \<open>An entry of \<open>meetings\<close>, as the create handler stores it.\<close>

record meeting =
  meetingId :: string
  Meeting :: chime_meeting
  creationTime :: string
  attendees :: "(string \<times> attendee) list"
  transcriptionEnabled :: bool
  creatorId :: jsval
  transcriptionMethod :: "transcription_method option"

text \<open>
  The commands the modelled handlers send with \<open>chimeClient.send\<close>. The language code of a start command is
  a value of the request or, through \<open>languageMapping[language]\<close>, a member of
  \<open>Object.prototype\<close>.
\<close>

datatype language_code = LanguageValue jsval | ObjectPrototypeMember string

datatype command =
    CreateMeetingCommand string string string
  | CreateAttendeeCommand jsval jsval
  | StartMeetingTranscriptionCommand jsval language_code jsval "(string \<times> string) list"
  | StopMeetingTranscriptionCommand jsval
  | DeleteMeetingCommand jsval

datatype service_error = ServiceError string string

fun errorName :: "service_error \<Rightarrow> string" where
  "errorName (ServiceError n m) = n"

fun errorMessage :: "service_error \<Rightarrow> string" where
  "errorMessage (ServiceError n m) = m"

datatype reply = MeetingReply chime_meeting | AttendeeReply chime_attendee | EmptyReply

text \<open>
  The gateway is the remote provider seen from the program: it answers a command,
  given the commands sent before, with a rejection (\<open>send\<close> throws) or a reply.
\<close>

type_synonym gateway = "command list \<Rightarrow> command \<Rightarrow> service_error + reply"

text \<open>\<open>response.Attendee\<close>: \<open>undefined\<close> on a reply that has no such field.\<close>

fun replyAttendee :: "reply \<Rightarrow> chime_attendee option" where
  "replyAttendee (AttendeeReply a) = Some a"
| "replyAttendee _ = None"

fun replyMeeting :: "reply \<Rightarrow> chime_meeting option" where
  "replyMeeting (MeetingReply m) = Some m"
| "replyMeeting _ = None"

text \<open>
  The state: the global \<open>meetings\<close> object and, to count remote calls, the commands
  sent so far. Each handler runs to its end before the next one starts; the
  interleaving of handlers at their \<open>await\<close>s is not modelled.
\<close>

record state =
  meetings :: "(string \<times> meeting) list"
  sent :: "command list"

definition send :: "gateway \<Rightarrow> command \<Rightarrow> state \<Rightarrow> (service_error + reply) \<times> state" where
  "send gw cmd st = (gw (sent st) cmd, st\<lparr>sent := sent st @ [cmd]\<rparr>)"

text \<open>The responses, without their message texts.\<close>

record meeting_info =
  info_Meeting :: chime_meeting
  info_meetingId :: string
  info_creationTime :: string
  info_transcriptionEnabled :: bool

record projection =
  proj_meetingId :: string
  proj_externalMeetingId :: string
  proj_creationTime :: string
  proj_attendeeCount :: nat
  proj_transcriptionEnabled :: bool

datatype js_error = Rejected service_error | TypeError

datatype response =
    NotFound
  | ServerError js_error
  | PermissionError string
  | MeetingList "projection list"
  | Joined meeting_info "chime_attendee option" bool
  | Created string
  | Success

text \<open>The HTTP status of a response.\<close>

fun status :: "response \<Rightarrow> nat" where
  "status NotFound = 404"
| "status (ServerError e) = 500"
| "status (PermissionError d) = 403"
| "status _ = 200"


section \<open>The handlers of index.js\<close>

text \<open>
  Each handler takes what it reads from outside (the gateway, the clock, the values
  \<open>uuidv4()\<close> returned, \<open>process.env.AWS_REGION\<close>, the fields of the request) and the
  state, and returns its response and the new state. The request body is a JSON
  object; a field it lacks is \<open>undefined\<close>. A field assignment
  \<open>meetings[meetingId].f = v\<close> changes the stored meeting when \<open>meetingId\<close> is an own
  key; when \<open>meetings[meetingId]\<close> is a member of \<open>Object.prototype\<close> it changes that
  member, which is outside the state, and leaves the registry as it is. The model
  follows the server for as long as \<open>Object.prototype\<close> itself has gained no
  property, that is, until a start or stop request names the meeting \<open>__proto__\<close>.
\<close>

definition mutateMeeting :: "string \<Rightarrow> (meeting \<Rightarrow> meeting) \<Rightarrow> state \<Rightarrow> state" where
  "mutateMeeting k f st = st\<lparr>meetings := AList.map_entry k f (meetings st)\<rparr>"

definition meetingInfo :: "meeting \<Rightarrow> meeting_info" where
  "meetingInfo m =
     \<lparr>info_Meeting = Meeting m, info_meetingId = meetingId m,
      info_creationTime = creationTime m,
      info_transcriptionEnabled = transcriptionEnabled m\<rparr>"

text \<open>\<open>GET /list-meetings\<close> (index.js 37-61).\<close>

definition projectMeeting :: "string \<times> meeting \<Rightarrow> projection" where
  "projectMeeting km =
     \<lparr>proj_meetingId = fst km,
      proj_externalMeetingId =
        (case ExternalMeetingId (Meeting (snd km)) of
           None \<Rightarrow> ''Sin ID externo''
         | Some e \<Rightarrow> if e = [] then ''Sin ID externo'' else e),
      proj_creationTime = creationTime (snd km),
      proj_attendeeCount = length (keys (attendees (snd km))),
      proj_transcriptionEnabled = transcriptionEnabled (snd km)\<rparr>"

definition list_meetings :: "state \<Rightarrow> response \<times> state" where
  "list_meetings st = (MeetingList (map projectMeeting (meetings st)), st)"

text \<open>
  \<open>POST /join-meeting\<close> (index.js 64-124). The copy of the meeting in the response
  has no attendees in it, so it is the same before and after the attendee is stored.
\<close>

definition join_meeting ::
  "gateway \<Rightarrow> int \<Rightarrow> jsval \<Rightarrow> jsval \<Rightarrow> jsval \<Rightarrow> state \<Rightarrow> response \<times> state" where
  "join_meeting gw now mid uid uname st =
     (if falsy mid then (NotFound, st)
      else case getProp (meetings st) (toPropertyKey mid) of
        Missing \<Rightarrow> (NotFound, st)
      | Inherited \<Rightarrow> (ServerError TypeError, st)
      | Own m \<Rightarrow>
          (case getProp (attendees m) (toPropertyKey uid) of
             Own a \<Rightarrow> (Joined (meetingInfo m) (attendeeInfo a) (uid = creatorId m), st)
           | Inherited \<Rightarrow> (Joined (meetingInfo m) None (uid = creatorId m), st)
           | Missing \<Rightarrow>
               (case send gw (CreateAttendeeCommand mid uid) st of
                  (Inl e, st1) \<Rightarrow> (ServerError (Rejected e), st1)
                | (Inr r, st1) \<Rightarrow>
                    (Joined (meetingInfo m) (replyAttendee r) (uid = creatorId m),
                     mutateMeeting (toPropertyKey mid)
                       (\<lambda>m. m\<lparr>attendees :=
                          setProp (toPropertyKey uid)
                            \<lparr>userId = uid, userName = jsOr uname uid,
                             joinTime = toISOString now, attendeeInfo = replyAttendee r\<rparr>
                            (attendees m)\<rparr>)
                       st1))))"

text \<open>\<open>POST /create-meeting\<close> (index.js 127-157).\<close>

definition create_meeting ::
  "gateway \<Rightarrow> int \<Rightarrow> string \<Rightarrow> string \<Rightarrow> jsval \<Rightarrow> state \<Rightarrow> response \<times> state" where
  "create_meeting gw now token externalId uid st =
     (case send gw (CreateMeetingCommand token ''us-east-1'' externalId) st of
        (Inl e, st1) \<Rightarrow> (ServerError (Rejected e), st1)
      | (Inr r, st1) \<Rightarrow>
          (case replyMeeting r of
             None \<Rightarrow> (ServerError TypeError, st1)
           | Some cm \<Rightarrow>
               (Created (MeetingId cm),
                st1\<lparr>meetings :=
                  setProp (MeetingId cm)
                    \<lparr>meetingId = MeetingId cm, Meeting = cm,
                     creationTime = toISOString now, attendees = [],
                     transcriptionEnabled = False, creatorId = uid,
                     transcriptionMethod = None\<rparr>
                    (meetings st1)\<rparr>)))"

text \<open>\<open>POST /start-transcription\<close> (index.js 160-228).\<close>

definition languageMapping :: "(string \<times> string) list" where
  "languageMapping = [(''es-ES'', ''es-US''), (''es'', ''es-US'')]"

definition mappedLanguage :: "jsval \<Rightarrow> language_code" where
  "mappedLanguage language =
     (case getProp languageMapping (toPropertyKey language) of
        Own v \<Rightarrow> LanguageValue (JStr v)
      | Inherited \<Rightarrow> ObjectPrototypeMember (toPropertyKey language)
      | Missing \<Rightarrow> LanguageValue (jsOr language (JStr ''es-US'')))"

definition isPermissionError :: "service_error \<Rightarrow> bool" where
  "isPermissionError e =
     (errorName e = ''AccessDeniedException'' \<or>
      includesStr (errorMessage e) ''Access Denied'' \<or>
      includesStr (errorMessage e) ''not authorized'')"

definition start_transcription ::
  "gateway \<Rightarrow> jsval \<Rightarrow> jsval \<Rightarrow> jsval \<Rightarrow> jsval \<Rightarrow> state \<Rightarrow> response \<times> state" where
  "start_transcription gw env mid region language st =
     (if falsy mid then (NotFound, st)
      else case getProp (meetings st) (toPropertyKey mid) of
        Missing \<Rightarrow> (NotFound, st)
      | _ \<Rightarrow>
          (case send gw
                  (StartMeetingTranscriptionCommand mid (mappedLanguage language)
                     (jsOr region (jsOr env (JStr ''us-east-1'')))
                     [(''VocabularyFilterMethod'', ''mask'')]) st of
             (Inr r, st1) \<Rightarrow>
               (Success,
                mutateMeeting (toPropertyKey mid)
                  (\<lambda>m. m\<lparr>transcriptionEnabled := True, transcriptionMethod := Some aws\<rparr>) st1)
           | (Inl e, st1) \<Rightarrow>
               if isPermissionError e
               then (PermissionError (errorMessage e),
                     mutateMeeting (toPropertyKey mid)
                       (\<lambda>m. m\<lparr>transcriptionEnabled := True,
                               transcriptionMethod := Some alternative\<rparr>) st1)
               else (ServerError (Rejected e), st1)))"

text \<open>\<open>POST /stop-transcription\<close> (index.js 231-255).\<close>

definition stop_transcription :: "gateway \<Rightarrow> jsval \<Rightarrow> state \<Rightarrow> response \<times> state" where
  "stop_transcription gw mid st =
     (if falsy mid then (NotFound, st)
      else case getProp (meetings st) (toPropertyKey mid) of
        Missing \<Rightarrow> (NotFound, st)
      | _ \<Rightarrow>
          (case send gw (StopMeetingTranscriptionCommand mid) st of
             (Inl e, st1) \<Rightarrow> (ServerError (Rejected e), st1)
           | (Inr r, st1) \<Rightarrow>
               (Success,
                mutateMeeting (toPropertyKey mid) (\<lambda>m. m\<lparr>transcriptionEnabled := False\<rparr>) st1)))"

text \<open>
  \<open>DELETE /delete-meeting/:meetingId\<close> (index.js 258-291): the id is a route
  parameter, a string. The outcome of the remote call is discarded.
\<close>

definition delete_meeting :: "gateway \<Rightarrow> string \<Rightarrow> state \<Rightarrow> response \<times> state" where
  "delete_meeting gw mid st =
     (if mid = [] then (NotFound, st)
      else case getProp (meetings st) mid of
        Missing \<Rightarrow> (NotFound, st)
      | _ \<Rightarrow>
          (case send gw (DeleteMeetingCommand (JStr mid)) st of
             (outcome, st1) \<Rightarrow> (Success, st1\<lparr>meetings := deleteProp mid (meetings st1)\<rparr>)))"

text \<open>\<open>POST /delete-meeting\<close> (index.js 294-327): the id is a field of the body.\<close>

definition delete_meeting_post :: "gateway \<Rightarrow> jsval \<Rightarrow> state \<Rightarrow> response \<times> state" where
  "delete_meeting_post gw mid st =
     (if falsy mid then (NotFound, st)
      else case getProp (meetings st) (toPropertyKey mid) of
        Missing \<Rightarrow> (NotFound, st)
      | _ \<Rightarrow>
          (case send gw (DeleteMeetingCommand mid) st of
             (outcome, st1) \<Rightarrow>
               (Success, st1\<lparr>meetings := deleteProp (toPropertyKey mid) (meetings st1)\<rparr>)))"

text \<open>\<open>POST /start-transcription-alternative\<close> (index.js 379-403).\<close>

definition start_transcription_alternative :: "jsval \<Rightarrow> state \<Rightarrow> response \<times> state" where
  "start_transcription_alternative mid st =
     (if falsy mid then (NotFound, st)
      else case getProp (meetings st) (toPropertyKey mid) of
        Missing \<Rightarrow> (NotFound, st)
      | _ \<Rightarrow>
          (Success,
           mutateMeeting (toPropertyKey mid)
             (\<lambda>m. m\<lparr>transcriptionEnabled := True, transcriptionMethod := Some alternative\<rparr>)
             st))"

text \<open>
  \<open>cleanupExpiredMeetings\<close> (index.js 485-509), run every 15 minutes. The loop goes
  through the keys \<open>Object.keys(meetings)\<close> had when the cycle began. The stored
  \<open>creationTime\<close> is the string \<open>toISOString\<close> made, and the subtraction converts it to
  a number. A key whose entry is gone makes \<open>meetings[meetingId].creationTime\<close>
  throw, which ends the cycle; under a key that only \<open>Object.prototype\<close> has, the
  field is \<open>undefined\<close> and the difference \<open>NaN\<close>.
\<close>

definition EXPIRY_MS :: int where
  "EXPIRY_MS = 60 * 60 * 1000"

definition expired :: "int \<Rightarrow> meeting \<Rightarrow> bool" where
  "expired now m = jsGreater (jsMinus (Num now) (StringToNumber (creationTime m))) (Num EXPIRY_MS)"

fun cleanupLoop :: "gateway \<Rightarrow> int \<Rightarrow> string list \<Rightarrow> state \<Rightarrow> state" where
  "cleanupLoop gw now [] st = st"
| "cleanupLoop gw now (k # ks) st =
     (case getProp (meetings st) k of
        Missing \<Rightarrow> st
      | Inherited \<Rightarrow> cleanupLoop gw now ks st
      | Own m \<Rightarrow>
          if expired now m
          then (case send gw (DeleteMeetingCommand (JStr k)) st of
                  (outcome, st1) \<Rightarrow>
                    cleanupLoop gw now ks (st1\<lparr>meetings := deleteProp k (meetings st1)\<rparr>))
          else cleanupLoop gw now ks st)"

definition cleanupExpiredMeetings :: "gateway \<Rightarrow> int \<Rightarrow> state \<Rightarrow> state" where
  "cleanupExpiredMeetings gw now st = cleanupLoop gw now (keys (meetings st)) st"

section \<open>The start handler of server.js\<close>

text \<open>
  server.js is the same server as index.js but for the route \<open>/\<close>, the missing
  permission check and this handler: \<open>POST /start-transcription\<close> (server.js 178-218)
  has a fixed language, no inner \<open>try\<close> and sets no \<open>transcriptionMethod\<close>.
\<close>

definition start_transcription_server ::
  "gateway \<Rightarrow> jsval \<Rightarrow> jsval \<Rightarrow> state \<Rightarrow> response \<times> state" where
  "start_transcription_server gw env mid st =
     (if falsy mid then (NotFound, st)
      else case getProp (meetings st) (toPropertyKey mid) of
        Missing \<Rightarrow> (NotFound, st)
      | _ \<Rightarrow>
          (case send gw
                  (StartMeetingTranscriptionCommand mid (LanguageValue (JStr ''es-US''))
                     (jsOr env (JStr ''us-east-1''))
                     [(''VocabularyFilterMethod'', ''mask''),
                      (''EnablePartialResultsStabilization'', ''true''),
                      (''PartialResultsStability'', ''high''),
                      (''ContentIdentificationType'', ''PII''),
                      (''EnablePartialResults'', ''true'')]) st of
             (Inl e, st1) \<Rightarrow> (ServerError (Rejected e), st1)
           | (Inr r, st1) \<Rightarrow>
               (Success,
                mutateMeeting (toPropertyKey mid) (\<lambda>m. m\<lparr>transcriptionEnabled := True\<rparr>) st1)))"


section \<open>Notions the properties are stated with\<close>

text \<open>
  The transcription mode of a session is what \<open>transcriptionMethod\<close> records: absent
  is \<open>Off\<close>, \<open>'aws'\<close> is \<open>ProviderManaged\<close>, \<open>'alternative'\<close> is \<open>Degraded\<close>.
\<close>

datatype mode = Off | ProviderManaged | Degraded

definition modeOf :: "meeting \<Rightarrow> mode" where
  "modeOf m =
     (case transcriptionMethod m of
        None \<Rightarrow> Off
      | Some aws \<Rightarrow> ProviderManaged
      | Some alternative \<Rightarrow> Degraded)"

text \<open>The invariant as the specification words it, for one session and for the registry.\<close>

definition transcriptionStateOk :: "meeting \<Rightarrow> bool" where
  "transcriptionStateOk m =
     (if transcriptionEnabled m then modeOf m \<in> {ProviderManaged, Degraded}
      else modeOf m = Off)"

definition transcriptionInvariant :: "state \<Rightarrow> bool" where
  "transcriptionInvariant st = list_all (\<lambda>km. transcriptionStateOk (snd km)) (meetings st)"

text \<open>Its first half: an enabled session has a mode other than \<open>Off\<close>.\<close>

definition enabledHasMode :: "meeting \<Rightarrow> bool" where
  "enabledHasMode m =
     (if transcriptionEnabled m then modeOf m \<in> {ProviderManaged, Degraded} else True)"

definition enabledInvariant :: "state \<Rightarrow> bool" where
  "enabledInvariant st = list_all (\<lambda>km. enabledHasMode (snd km)) (meetings st)"

text \<open>
  The operations of index.js: its routes that touch the registry, each with what the
  handler reads from the request and from \<open>uuidv4()\<close>, and the reaper's cycle.
\<close>

datatype request =
    ListMeetings
  | JoinMeeting jsval jsval jsval
  | CreateMeeting string string jsval
  | StartTranscription jsval jsval jsval
  | StopTranscription jsval
  | DeleteMeeting string
  | DeleteMeetingPost jsval
  | StartTranscriptionAlternative jsval
  | CleanupExpiredMeetings

fun handle :: "gateway \<Rightarrow> jsval \<Rightarrow> int \<Rightarrow> request \<Rightarrow> state \<Rightarrow> state" where
  "handle gw env now ListMeetings st = snd (list_meetings st)"
| "handle gw env now (JoinMeeting mid uid uname) st = snd (join_meeting gw now mid uid uname st)"
| "handle gw env now (CreateMeeting token externalId uid) st =
     snd (create_meeting gw now token externalId uid st)"
| "handle gw env now (StartTranscription mid region language) st =
     snd (start_transcription gw env mid region language st)"
| "handle gw env now (StopTranscription mid) st = snd (stop_transcription gw mid st)"
| "handle gw env now (DeleteMeeting mid) st = snd (delete_meeting gw mid st)"
| "handle gw env now (DeleteMeetingPost mid) st = snd (delete_meeting_post gw mid st)"
| "handle gw env now (StartTranscriptionAlternative mid) st =
     snd (start_transcription_alternative mid st)"
| "handle gw env now CleanupExpiredMeetings st = cleanupExpiredMeetings gw now st"

text \<open>The projection of one session, looked up in the list \<open>/list-meetings\<close> returns.\<close>

definition projectionOf :: "state \<Rightarrow> string \<Rightarrow> projection option" where
  "projectionOf st k =
     (case fst (list_meetings st) of
        MeetingList ps \<Rightarrow> find (\<lambda>p. proj_meetingId p = k) ps
      | _ \<Rightarrow> None)"

text \<open>The number of \<open>CreateAttendee\<close> calls among the commands sent.\<close>

fun isCreateAttendee :: "command \<Rightarrow> bool" where
  "isCreateAttendee (CreateAttendeeCommand mid uid) = True"
| "isCreateAttendee _ = False"

definition createAttendeeCalls :: "state \<Rightarrow> nat" where
  "createAttendeeCalls st = length (filter isCreateAttendee (sent st))"

text \<open>The attendees a session has: the own keys of its \<open>attendees\<close> object.\<close>

definition attendeeCount :: "state \<Rightarrow> string \<Rightarrow> nat" where
  "attendeeCount st k =
     (case map_of (meetings st) k of None \<Rightarrow> 0 | Some m \<Rightarrow> length (keys (attendees m)))"

subsection \<open>Sample gateways and states\<close>

definition initialState :: state where
  "initialState = \<lparr>meetings = [], sent = []\<rparr>"

text \<open>Two rejections: an outage, and missing permission.\<close>

definition serviceDown :: service_error where
  "serviceDown = ServiceError ''ServiceUnavailableException'' ''Service unavailable''"

definition accessDenied :: service_error where
  "accessDenied =
     ServiceError ''AccessDeniedException''
       ''User is not authorized to perform: chime:StartMeetingTranscription''"

text \<open>A provider that accepts every command and names every meeting \<open>meeting-1\<close>.\<close>

definition gwAccept :: gateway where
  "gwAccept history cmd =
     (case cmd of
        CreateMeetingCommand token region externalId \<Rightarrow>
          Inr (MeetingReply \<lparr>MeetingId = ''meeting-1'', ExternalMeetingId = Some externalId\<rparr>)
      | CreateAttendeeCommand mid uid \<Rightarrow> Inr (AttendeeReply (ChimeAttendee ''attendee-1''))
      | _ \<Rightarrow> Inr EmptyReply)"

text \<open>A provider that is down.\<close>

definition gwReject :: gateway where
  "gwReject history cmd = Inl serviceDown"

text \<open>A provider whose credentials may not start a transcription.\<close>

definition gwDenied :: gateway where
  "gwDenied history cmd =
     (case cmd of
        StartMeetingTranscriptionCommand mid lang region settings \<Rightarrow>
          Inl accessDenied
      | _ \<Rightarrow> gwAccept history cmd)"

text \<open>A provider that creates meetings and fails every other command.\<close>

definition gwCreateOnly :: gateway where
  "gwCreateOnly history cmd =
     (case cmd of
        CreateMeetingCommand token region externalId \<Rightarrow> gwAccept history cmd
      | _ \<Rightarrow> gwReject history cmd)"

text \<open>The registry after one meeting was created at time 0 by user \<open>u1\<close>.\<close>

definition oneMeeting :: state where
  "oneMeeting = snd (create_meeting gwAccept 0 ''token-1'' ''external-1'' (JStr ''u1'') initialState)"

text \<open>The entry that creation stored, and the same entry in degraded transcription.\<close>

definition sampleMeeting :: meeting where
  "sampleMeeting =
     \<lparr>meetingId = ''meeting-1'',
      Meeting = \<lparr>MeetingId = ''meeting-1'', ExternalMeetingId = Some ''external-1''\<rparr>,
      creationTime = ''1970-01-01T00:00:00.000Z'', attendees = [],
      transcriptionEnabled = False, creatorId = JStr ''u1'', transcriptionMethod = None\<rparr>"

definition degradedMeeting :: state where
  "degradedMeeting = snd (start_transcription_alternative (JStr ''meeting-1'') oneMeeting)"

text \<open>The registry after a meeting was created by a request without \<open>userId\<close>.\<close>

definition anonymousMeeting :: state where
  "anonymousMeeting =
     snd (create_meeting gwAccept 0 ''token-1'' ''external-1'' JUndefined initialState)"

section \<open>Properties\<close>

subsection \<open>Facts about the objects\<close>

lemma getProp_Own_iff: "getProp obj k = Own v \<longleftrightarrow> map_of obj k = Some v"
  by (simp add: getProp_def split: option.splits)

lemma getProp_Missing_iff:
  "getProp obj k = Missing \<longleftrightarrow> map_of obj k = None \<and> k \<notin> set objectPrototypeKeys"
  by (simp add: getProp_def split: option.splits)

lemma map_of_deleteProp: "map_of (deleteProp k obj) k' = (if k' = k then None else map_of obj k')"
  by (simp add: deleteProp_def delete_conv')

lemma map_of_setProp:
  "k \<noteq> ''__proto__'' \<Longrightarrow>
   map_of (setProp k v obj) k' = (if k' = k then Some v else map_of obj k')"
  by (simp add: setProp_def update_conv')

lemma map_of_map_entry:
  "map_of (AList.map_entry k f obj) k' =
     (if k' = k then map_option f (map_of obj k) else map_of obj k')"
  by (induction obj) auto

lemma meetings_send [simp]: "meetings (snd (send gw cmd st)) = meetings st"
  by (simp add: send_def)

lemma sent_send [simp]: "sent (snd (send gw cmd st)) = sent st @ [cmd]"
  by (simp add: send_def)

lemma fst_send [simp]: "fst (send gw cmd st) = gw (sent st) cmd"
  by (simp add: send_def)

lemma list_all_deleteProp: "list_all P obj \<Longrightarrow> list_all P (deleteProp k obj)"
  by (induction obj) (auto simp: deleteProp_def)

lemma list_all_update:
  "list_all P obj \<Longrightarrow> P (k, v) \<Longrightarrow> list_all P (AList.update k v obj)"
  by (induction obj) auto

lemma list_all_setProp:
  "list_all P obj \<Longrightarrow> P (k, v) \<Longrightarrow> list_all P (setProp k v obj)"
  by (simp add: setProp_def list_all_update)

lemma list_all_map_entry:
  "list_all (\<lambda>km. Q (snd km)) obj \<Longrightarrow> (\<And>v. Q v \<Longrightarrow> Q (f v)) \<Longrightarrow>
   list_all (\<lambda>km. Q (snd km)) (AList.map_entry k f obj)"
  by (induction obj) auto

lemma length_update_new:
  "map_of obj k = None \<Longrightarrow> length (AList.update k v obj) = Suc (length obj)"
  by (induction obj) (auto split: if_splits)

lemma find_projectMeeting:
  "map_of obj k = Some m \<Longrightarrow>
   find (\<lambda>p. proj_meetingId p = k) (map projectMeeting obj) = Some (projectMeeting (k, m))"
  by (induction obj) (auto simp: projectMeeting_def)

lemma projectionOf_own:
  "map_of (meetings st) k = Some m \<Longrightarrow> projectionOf st k = Some (projectMeeting (k, m))"
  by (simp add: projectionOf_def list_meetings_def find_projectMeeting)

subsection \<open>The sample states\<close>

lemma toISOString_samples:
  "toISOString 0 = ''1970-01-01T00:00:00.000Z''"
  "toISOString 1700000000000 = ''2023-11-14T22:13:20.000Z''"
  "toISOString (- 1) = ''1969-12-31T23:59:59.999Z''"
  "toISOString 253402300800000 = ''+010000-01-01T00:00:00.000Z''"
  by code_simp+

lemma StringToNumber_samples:
  "StringToNumber '' 42 '' = Num 42"
  "StringToNumber ''-7'' = Num (- 7)"
  "StringToNumber [] = Num 0"
  "StringToNumber ''1970-01-01T00:00:00.000Z'' = NaN"
  by code_simp+

lemma oneMeeting_entries: "meetings oneMeeting = [(''meeting-1'', sampleMeeting)]"
  by code_simp

subsection \<open>The two removal routes\<close>

text \<open>
  C9. \<open>DELETE /delete-meeting/:meetingId\<close> and \<open>POST /delete-meeting\<close> with the same
  meeting id make the same transition from every state, whatever the gateway
  answers: the same response, the same registry afterwards, the same command sent.
\<close>

theorem delete_routes_agree:
  "delete_meeting_post gw (JStr k) st = delete_meeting gw k st"
  by (simp add: delete_meeting_post_def delete_meeting_def split: property.splits prod.splits)

subsection \<open>The reaper\<close>

text \<open>
  A string that holds a character which is neither white space, a digit nor a sign
  is not a number, and every output of \<open>toISOString\<close> ends in \<open>Z\<close>.
\<close>

lemma in_trimString: "c \<in> set s \<Longrightarrow> \<not> isWhiteSpace c \<Longrightarrow> c \<in> set (trimString s)"
proof -
  have keep: "c \<in> set xs \<Longrightarrow> \<not> isWhiteSpace c \<Longrightarrow> c \<in> set (dropWhile isWhiteSpace xs)" for xs
    by (induction xs) auto
  assume "c \<in> set s" and "\<not> isWhiteSpace c"
  then show ?thesis
    unfolding trimString_def by (simp add: keep)
qed

lemma unsignedInteger_NaN: "c \<in> set s \<Longrightarrow> \<not> isDigit c \<Longrightarrow> unsignedInteger s = NaN"
  by (auto simp: unsignedInteger_def list_all_iff)

lemma StringToNumber_NaN:
  assumes "c \<in> set s" and "\<not> isWhiteSpace c" and "\<not> isDigit c"
    and "c \<noteq> CHR ''+''" and "c \<noteq> CHR ''-''"
  shows "StringToNumber s = NaN"
proof -
  have mem: "c \<in> set (trimString s)"
    using assms(1,2) by (rule in_trimString)
  show ?thesis
  proof (cases "trimString s")
    case Nil
    with mem show ?thesis by simp
  next
    case (Cons d r)
    show ?thesis
    proof (cases "d = CHR ''+'' \<or> d = CHR ''-''")
      case True
      with mem Cons assms(4,5) have "c \<in> set r" by auto
      then have "unsignedInteger r = NaN"
        using assms(3) by (rule unsignedInteger_NaN)
      with True Cons show ?thesis
        by (auto simp: StringToNumber_def jsNegate_def)
    next
      case False
      from mem Cons have "unsignedInteger (d # r) = NaN"
        using assms(3) by (simp add: unsignedInteger_NaN)
      with False Cons show ?thesis
        by (simp add: StringToNumber_def)
    qed
  qed
qed

lemma Z_in_toISOString: "CHR ''Z'' \<in> set (toISOString t)"
  by (cases "civilFromDay (Day t)") (simp add: toISOString_def)

lemma StringToNumber_toISOString: "StringToNumber (toISOString t) = NaN"
  by (rule StringToNumber_NaN [OF Z_in_toISOString]) (simp_all add: isWhiteSpace_def isDigit_def)

lemma not_expired_toISOString: "creationTime m = toISOString t \<Longrightarrow> \<not> expired now m"
  by (simp add: expired_def StringToNumber_toISOString)

text \<open>
  So a cycle of the reaper removes nothing and sends nothing, whatever the clock
  shows, as long as every \<open>creationTime\<close> in the registry was written by the create
  handler.
\<close>

lemma cleanupLoop_never_removes:
  assumes "list_all (\<lambda>km. creationTime (snd km) \<in> range toISOString) (meetings st)"
  shows "cleanupLoop gw now ks st = st"
  using assms
proof (induction ks)
  case Nil
  then show ?case by simp
next
  case (Cons k ks)
  show ?case
  proof (cases "getProp (meetings st) k")
    case (Own m)
    then have "(k, m) \<in> set (meetings st)"
      by (simp add: getProp_Own_iff map_of_SomeD)
    with Cons.prems have "creationTime m \<in> range toISOString"
      by (auto simp: list_all_iff)
    then have "\<not> expired now m"
      by (auto simp: not_expired_toISOString)
    with Own Cons show ?thesis by simp
  qed (use Cons in simp_all)
qed

lemma reaper_never_removes:
  assumes "list_all (\<lambda>km. creationTime (snd km) \<in> range toISOString) (meetings st)"
  shows "cleanupExpiredMeetings gw now st = st"
  using assms by (simp add: cleanupExpiredMeetings_def cleanupLoop_never_removes)

text \<open>
  C1 (the code departs from the claim). The claim: a session created at \<open>t0\<close> is still
  in the registry at \<open>t0 + 59\<close> minutes and is gone once a cycle of the reaper has run
  after \<open>t0 + 61\<close> minutes. The code, for the session created at time 0: the cycle run
  at 59 minutes keeps it, and so does the cycle run at 61 minutes, because the
  stored \<open>creationTime\<close> is an ISO string, \<open>now - creationTime\<close> is \<open>NaN\<close> and
  \<open>NaN > EXPIRY_MS\<close> is false.
\<close>

theorem reaper_keeps_session_past_ttl:
  "meetings oneMeeting = [(''meeting-1'', sampleMeeting)] \<and>
   creationTime sampleMeeting = toISOString 0 \<and>
   cleanupExpiredMeetings gwAccept (59 * 60 * 1000) oneMeeting = oneMeeting \<and>
   jsMinus (Num (61 * 60 * 1000)) (StringToNumber (creationTime sampleMeeting)) = NaN \<and>
   expired (61 * 60 * 1000) sampleMeeting = False \<and>
   cleanupExpiredMeetings gwAccept (61 * 60 * 1000) oneMeeting = oneMeeting"
  by code_simp

subsection \<open>The transcription state\<close>

lemma enabledInvariant_mutateMeeting:
  "enabledInvariant st \<Longrightarrow> (\<And>m. enabledHasMode m \<Longrightarrow> enabledHasMode (f m)) \<Longrightarrow>
   enabledInvariant (mutateMeeting k f st)"
  by (simp add: enabledInvariant_def mutateMeeting_def list_all_map_entry)

lemma enabledInvariant_sent [simp]:
  "enabledInvariant (st\<lparr>sent := cmds\<rparr>) = enabledInvariant st"
  by (simp add: enabledInvariant_def)

lemma enabledInvariant_setProp:
  "enabledInvariant st \<Longrightarrow> enabledHasMode m \<Longrightarrow>
   enabledInvariant (st\<lparr>meetings := setProp k m (meetings st)\<rparr>)"
  by (simp add: enabledInvariant_def list_all_setProp)

lemma enabledInvariant_deleteProp:
  "enabledInvariant st \<Longrightarrow> enabledInvariant (st\<lparr>meetings := deleteProp k (meetings st)\<rparr>)"
  by (simp add: enabledInvariant_def list_all_deleteProp)

lemma enabledInvariant_join:
  "enabledInvariant st \<Longrightarrow> enabledInvariant (snd (join_meeting gw now mid uid uname st))"
  by (auto simp: join_meeting_def send_def enabledHasMode_def modeOf_def
      intro!: enabledInvariant_mutateMeeting
      split: property.splits sum.splits)

lemma enabledInvariant_create:
  "enabledInvariant st \<Longrightarrow>
   enabledInvariant (snd (create_meeting gw now token externalId uid st))"
proof -
  assume inv: "enabledInvariant st"
  have fresh: "enabledHasMode
      \<lparr>meetingId = k, Meeting = cm, creationTime = c, attendees = [],
       transcriptionEnabled = False, creatorId = uid, transcriptionMethod = None\<rparr>" for k cm c
    by (simp add: enabledHasMode_def)
  have "enabledInvariant (st\<lparr>sent := cmds\<rparr>)" for cmds
    using inv by simp
  then show ?thesis
    by (auto simp: create_meeting_def send_def fresh
        intro!: enabledInvariant_setProp [where st = "st\<lparr>sent := cmds\<rparr>" for cmds, simplified]
        split: sum.splits option.splits)
qed

lemma enabledInvariant_start:
  "enabledInvariant st \<Longrightarrow>
   enabledInvariant (snd (start_transcription gw env mid region language st))"
  by (auto simp: start_transcription_def send_def enabledHasMode_def modeOf_def
      intro!: enabledInvariant_mutateMeeting
      split: property.splits sum.splits)

lemma enabledInvariant_stop:
  "enabledInvariant st \<Longrightarrow> enabledInvariant (snd (stop_transcription gw mid st))"
  by (auto simp: stop_transcription_def send_def enabledHasMode_def modeOf_def
      intro!: enabledInvariant_mutateMeeting
      split: property.splits sum.splits)

lemma enabledInvariant_start_alternative:
  "enabledInvariant st \<Longrightarrow> enabledInvariant (snd (start_transcription_alternative mid st))"
  by (auto simp: start_transcription_alternative_def enabledHasMode_def modeOf_def
      intro!: enabledInvariant_mutateMeeting
      split: property.splits)

lemma enabledInvariant_delete:
  "enabledInvariant st \<Longrightarrow> enabledInvariant (snd (delete_meeting gw k st))"
  using enabledInvariant_deleteProp [of "st\<lparr>sent := cmds\<rparr>" for cmds]
  by (auto simp: delete_meeting_def send_def split: property.splits)

lemma enabledInvariant_delete_post:
  "enabledInvariant st \<Longrightarrow> enabledInvariant (snd (delete_meeting_post gw mid st))"
  using enabledInvariant_deleteProp [of "st\<lparr>sent := cmds\<rparr>" for cmds]
  by (auto simp: delete_meeting_post_def send_def split: property.splits)

lemma enabledInvariant_cleanupLoop:
  "enabledInvariant st \<Longrightarrow> enabledInvariant (cleanupLoop gw now ks st)"
proof (induction ks arbitrary: st)
  case Nil
  then show ?case by simp
next
  case (Cons k ks)
  have step: "enabledInvariant (st\<lparr>sent := cmds, meetings := deleteProp k (meetings st)\<rparr>)" for cmds
    using enabledInvariant_deleteProp [of "st\<lparr>sent := cmds\<rparr>" k] Cons.prems by simp
  show ?case
    using Cons.prems Cons.IH step
    by (auto simp: send_def split: property.splits)
qed

lemma enabledInvariant_handle:
  "enabledInvariant st \<Longrightarrow> enabledInvariant (handle gw env now rq st)"
  by (cases rq)
    (simp_all add: list_meetings_def enabledInvariant_join enabledInvariant_create
      enabledInvariant_start enabledInvariant_stop enabledInvariant_delete
      enabledInvariant_delete_post enabledInvariant_start_alternative
      enabledInvariant_cleanupLoop cleanupExpiredMeetings_def)

lemma stop_success_keeps_method:
  assumes "map_of (meetings st) (toPropertyKey mid) = Some m"
    and "fst (stop_transcription gw mid st) = Success"
  shows "map_of (meetings (snd (stop_transcription gw mid st))) (toPropertyKey mid) =
         Some (m\<lparr>transcriptionEnabled := False\<rparr>)"
  using assms
  by (auto simp: stop_transcription_def send_def mutateMeeting_def map_of_map_entry
      getProp_def split: if_splits sum.splits)

text \<open>
  C2 (amended). Every operation of index.js keeps, for every session of the
  registry, the first half of the invariant: a session with \<open>transcriptionEnabled\<close>
  has the mode \<open>ProviderManaged\<close> or \<open>Degraded\<close>. A successful stop sets
  \<open>transcriptionEnabled\<close> to false and leaves \<open>transcriptionMethod\<close>, hence the mode, as it
  was: the mode is not set back to \<open>Off\<close>.
\<close>

theorem enabled_invariant_preserved:
  assumes "enabledInvariant st"
  shows "enabledInvariant (handle gw env now rq st) \<and>
         (map_of (meetings st) (toPropertyKey mid) = Some m \<and>
          fst (stop_transcription gw mid st) = Success \<longrightarrow>
            map_of (meetings (snd (stop_transcription gw mid st))) (toPropertyKey mid) =
              Some (m\<lparr>transcriptionEnabled := False\<rparr>) \<and>
            modeOf (m\<lparr>transcriptionEnabled := False\<rparr>) = modeOf m)"
  using assms
  by (simp add: enabledInvariant_handle stop_success_keeps_method modeOf_def)

text \<open>
  The theorem at work: the sample session in degraded transcription satisfies the
  invariant, still does after a successful stop, and is then stored disabled with
  its method still \<open>alternative\<close>.
\<close>

theorem enabled_invariant_preserved_witness:
  "enabledInvariant degradedMeeting \<and>
   enabledInvariant (handle gwAccept JUndefined 2000 (StopTranscription (JStr ''meeting-1''))
      degradedMeeting) \<and>
   map_of (meetings (snd (stop_transcription gwAccept (JStr ''meeting-1'') degradedMeeting)))
      (toPropertyKey (JStr ''meeting-1'')) =
     Some (sampleMeeting\<lparr>transcriptionEnabled := True, transcriptionMethod := Some alternative,
                         transcriptionEnabled := False\<rparr>)"
proof -
  let ?m = "sampleMeeting\<lparr>transcriptionEnabled := True, transcriptionMethod := Some alternative\<rparr>"
  have inv: "enabledInvariant degradedMeeting"
    by code_simp
  have own: "map_of (meetings degradedMeeting) (toPropertyKey (JStr ''meeting-1'')) = Some ?m"
    by code_simp
  have ok: "fst (stop_transcription gwAccept (JStr ''meeting-1'') degradedMeeting) = Success"
    by code_simp
  note step = enabled_invariant_preserved [where gw = gwAccept and env = JUndefined
      and now = 2000 and rq = "StopTranscription (JStr ''meeting-1'')"
      and mid = "JStr ''meeting-1''" and m = ?m, OF inv]
  from step [THEN conjunct2, THEN mp, OF conjI [OF own ok]] step [THEN conjunct1] inv
  show ?thesis
    by blast
qed

text \<open>
  The invariant as the claim has it, with \<open>enabled == false\<close> implying \<open>Off\<close>, holds after
  a successful start and fails after the successful stop that follows: the session
  is then disabled with mode \<open>ProviderManaged\<close>.
\<close>

theorem transcription_invariant_broken_by_stop:
  "transcriptionInvariant (handle gwAccept JUndefined 1000
        (StartTranscription (JStr ''meeting-1'') JUndefined JUndefined) oneMeeting) \<and>
   \<not> transcriptionInvariant
      (handle gwAccept JUndefined 2000 (StopTranscription (JStr ''meeting-1''))
        (handle gwAccept JUndefined 1000
           (StartTranscription (JStr ''meeting-1'') JUndefined JUndefined) oneMeeting))"
  by code_simp

subsection \<open>Joining\<close>

lemma join_isCreator:
  assumes "map_of (meetings st) k = Some m"
    and "fst (join_meeting gw now (JStr k) uid uname st) = Joined info a b"
  shows "b = (uid = creatorId m)"
  using assms
  by (auto simp: join_meeting_def send_def getProp_def
      split: if_splits sum.splits option.splits)

lemma join_accepted:
  assumes "map_of (meetings st) k = Some m" and "k \<noteq> []"
    and "map_of (attendees m) (toPropertyKey uid) = None"
    and "toPropertyKey uid \<notin> set objectPrototypeKeys"
    and "gw (sent st) (CreateAttendeeCommand (JStr k) uid) = Inr reply"
  shows "join_meeting gw now (JStr k) uid uname st =
         (Joined (meetingInfo m) (replyAttendee reply) (uid = creatorId m),
          st\<lparr>sent := sent st @ [CreateAttendeeCommand (JStr k) uid],
             meetings := AList.map_entry k
               (\<lambda>m. m\<lparr>attendees := AList.update (toPropertyKey uid)
                      \<lparr>userId = uid, userName = jsOr uname uid, joinTime = toISOString now,
                       attendeeInfo = replyAttendee reply\<rparr> (attendees m)\<rparr>)
               (meetings st)\<rparr>)"
  using assms
  by (auto simp: join_meeting_def send_def getProp_def mutateMeeting_def setProp_def
      objectPrototypeKeys_def)

lemma join_again:
  assumes "map_of (meetings st) k = Some m" and "k \<noteq> []"
    and "map_of (attendees m) (toPropertyKey uid) = Some a"
  shows "join_meeting gw now (JStr k) uid uname st =
         (Joined (meetingInfo m) (attendeeInfo a) (uid = creatorId m), st)"
  using assms by (simp add: join_meeting_def getProp_def)

text \<open>
  For a user id that is not the name of a member of \<open>Object.prototype\<close>, joining
  twice is idempotent: the second response equals the first, the session gains
  one attendee and \<open>CreateAttendee\<close> is called once.
\<close>

lemma join_twice_idempotent:
  assumes own: "map_of (meetings st) k = Some m" and k: "k \<noteq> []"
    and new: "map_of (attendees m) (toPropertyKey uid) = None"
    and name: "toPropertyKey uid \<notin> set objectPrototypeKeys"
    and accepted: "gw (sent st) (CreateAttendeeCommand (JStr k) uid) = Inr reply"
    and first: "join_meeting gw now (JStr k) uid uname st = (r1, st1)"
    and second: "join_meeting gw2 now2 (JStr k) uid uname2 st1 = (r2, st2)"
  shows "r2 = r1 \<and> attendeeCount st2 k = attendeeCount st k + 1 \<and>
         createAttendeeCalls st2 = createAttendeeCalls st + 1"
proof -
  let ?a = "\<lparr>userId = uid, userName = jsOr uname uid, joinTime = toISOString now,
             attendeeInfo = replyAttendee reply\<rparr>"
  let ?m1 = "m\<lparr>attendees := AList.update (toPropertyKey uid) ?a (attendees m)\<rparr>"
  from join_accepted [where gw = gw and now = now and uname = uname, OF own k new name accepted] first
  have r1: "r1 = Joined (meetingInfo m) (replyAttendee reply) (uid = creatorId m)"
    and st1: "st1 = st\<lparr>sent := sent st @ [CreateAttendeeCommand (JStr k) uid],
                 meetings := AList.map_entry k (\<lambda>m. m\<lparr>attendees :=
                     AList.update (toPropertyKey uid) ?a (attendees m)\<rparr>) (meetings st)\<rparr>"
    by simp_all
  have own1: "map_of (meetings st1) k = Some ?m1"
    by (simp add: st1 map_of_map_entry own)
  have stored: "map_of (attendees ?m1) (toPropertyKey uid) = Some ?a"
    by (simp add: update_conv')
  from join_again [where gw = gw2 and now = now2 and uname = uname2, OF own1 k stored] second
  have r2: "r2 = Joined (meetingInfo ?m1) (replyAttendee reply) (uid = creatorId m)"
    and st2: "st2 = st1"
    by simp_all
  have "meetingInfo ?m1 = meetingInfo m"
    by (simp add: meetingInfo_def)
  with r1 r2 have "r2 = r1" by simp
  moreover have "attendeeCount st2 k = attendeeCount st k + 1"
    by (simp add: st2 attendeeCount_def own1 own keys_def length_update_new new)
  moreover have "createAttendeeCalls st2 = createAttendeeCalls st + 1"
    by (simp add: st2 st1 createAttendeeCalls_def)
  ultimately show ?thesis by simp
qed

text \<open>
  C3 (the code departs from the claim). The claim: joining twice with the same
  \<open>userId\<close> returns the same attendee data, adds exactly one attendee and calls
  \<open>CreateAttendee\<close> exactly once. The code, for \<open>userId = "constructor"\<close> on the sample
  session: \<open>attendees["constructor"]\<close> is \<open>Object.prototype.constructor\<close>, which is
  truthy, so already the first call takes the branch for a user who has joined. Both
  calls answer 200 without attendee data, no attendee is stored and \<open>CreateAttendee\<close>
  is never called.
\<close>

theorem join_prototype_name_not_registered:
  "join_meeting gwAccept 1000 (JStr ''meeting-1'') (JStr ''constructor'') (JStr ''Ann'') oneMeeting =
     (Joined (meetingInfo sampleMeeting) None False, oneMeeting) \<and>
   join_meeting gwAccept 2000 (JStr ''meeting-1'') (JStr ''constructor'') (JStr ''Ann'')
       (snd (join_meeting gwAccept 1000 (JStr ''meeting-1'') (JStr ''constructor'') (JStr ''Ann'')
          oneMeeting)) =
     (Joined (meetingInfo sampleMeeting) None False, oneMeeting) \<and>
   attendeeCount oneMeeting ''meeting-1'' = 0 \<and>
   createAttendeeCalls oneMeeting = 0"
  by code_simp

text \<open>
  C7. Take a session of the registry and a user id that is not among its
  attendees. If the join handler calls \<open>CreateAttendee\<close> and the call fails, the
  response is the 500 error that carries the gateway's rejection, and the registry,
  with it the session and its attendee count, is as before.
\<close>

theorem join_failure_leaves_session:
  assumes "map_of (meetings st) k = Some m" and "k \<noteq> []"
    and "map_of (attendees m) (toPropertyKey uid) = None"
    and "join_meeting gw now (JStr k) uid uname st = (r, st')"
    and "sent st' = sent st @ [CreateAttendeeCommand (JStr k) uid]"
    and "gw (sent st) (CreateAttendeeCommand (JStr k) uid) = Inl e"
  shows "r = ServerError (Rejected e) \<and> status r = 500 \<and> meetings st' = meetings st \<and>
         attendeeCount st' k = attendeeCount st k"
  using assms
  by (auto simp: join_meeting_def send_def getProp_def attendeeCount_def
      split: if_splits)

text \<open>
  The theorem at work: user \<open>u2\<close> joins the sample session while the provider
  rejects \<open>CreateAttendee\<close>.
\<close>

theorem join_failure_leaves_session_witness:
  "map_of (meetings oneMeeting) ''meeting-1'' = Some sampleMeeting \<and>
   map_of (attendees sampleMeeting) (toPropertyKey (JStr ''u2'')) = None \<and>
   gwCreateOnly (sent oneMeeting) (CreateAttendeeCommand (JStr ''meeting-1'') (JStr ''u2'')) =
     Inl serviceDown \<and>
   fst (join_meeting gwCreateOnly 1000 (JStr ''meeting-1'') (JStr ''u2'') (JStr ''Ann'') oneMeeting) =
     ServerError (Rejected serviceDown) \<and>
   meetings (snd (join_meeting gwCreateOnly 1000 (JStr ''meeting-1'') (JStr ''u2'') (JStr ''Ann'')
      oneMeeting)) = meetings oneMeeting"
proof -
  let ?run = "join_meeting gwCreateOnly 1000 (JStr ''meeting-1'') (JStr ''u2'') (JStr ''Ann'') oneMeeting"
  have own: "map_of (meetings oneMeeting) ''meeting-1'' = Some sampleMeeting"
    by code_simp
  have k: "''meeting-1'' \<noteq> []"
    by simp
  have new: "map_of (attendees sampleMeeting) (toPropertyKey (JStr ''u2'')) = None"
    by (simp add: sampleMeeting_def)
  have run: "?run = (fst ?run, snd ?run)"
    by simp
  have called: "sent (snd ?run) =
      sent oneMeeting @ [CreateAttendeeCommand (JStr ''meeting-1'') (JStr ''u2'')]"
    by code_simp
  have fails: "gwCreateOnly (sent oneMeeting)
      (CreateAttendeeCommand (JStr ''meeting-1'') (JStr ''u2'')) = Inl serviceDown"
    by (simp add: gwCreateOnly_def gwReject_def)
  from join_failure_leaves_session [where gw = gwCreateOnly, OF own k new run called fails]
  show ?thesis
    using own new fails by blast
qed

text \<open>
  C10. A create request without \<open>userId\<close> stores \<open>creatorId = undefined\<close>. Whenever a
  session has that \<open>creatorId\<close>, a join request without \<open>userId\<close> is answered with
  \<open>isCreator = true\<close>, on the first join (if the gateway accepts the attendee) and on
  every later one; the only other answer is the 500 error of a rejected
  \<open>CreateAttendee\<close>.
\<close>

theorem omitted_userId_reports_creator:
  assumes "gw (sent st) (CreateMeetingCommand token ''us-east-1'' externalId) = Inr (MeetingReply cm)"
    and "MeetingId cm \<noteq> ''__proto__''" and "MeetingId cm \<noteq> []"
  shows "map_option creatorId
           (map_of (meetings (snd (create_meeting gw now token externalId JUndefined st)))
              (MeetingId cm)) = Some JUndefined \<and>
         (\<forall>st2 m2 gw2 now2 uname.
            map_of (meetings st2) (MeetingId cm) = Some m2 \<and> creatorId m2 = JUndefined \<longrightarrow>
            fst (join_meeting gw2 now2 (JStr (MeetingId cm)) JUndefined uname st2) =
              (case map_of (attendees m2) ''undefined'' of
                 Some a \<Rightarrow> Joined (meetingInfo m2) (attendeeInfo a) True
               | None \<Rightarrow>
                   (case gw2 (sent st2) (CreateAttendeeCommand (JStr (MeetingId cm)) JUndefined) of
                      Inl e \<Rightarrow> ServerError (Rejected e)
                    | Inr r \<Rightarrow> Joined (meetingInfo m2) (replyAttendee r) True)))"
proof -
  have "map_option creatorId
           (map_of (meetings (snd (create_meeting gw now token externalId JUndefined st)))
              (MeetingId cm)) = Some JUndefined"
    using assms by (simp add: create_meeting_def send_def map_of_setProp)
  moreover have "fst (join_meeting gw2 now2 (JStr (MeetingId cm)) JUndefined uname st2) =
              (case map_of (attendees m2) ''undefined'' of
                 Some a \<Rightarrow> Joined (meetingInfo m2) (attendeeInfo a) True
               | None \<Rightarrow>
                   (case gw2 (sent st2) (CreateAttendeeCommand (JStr (MeetingId cm)) JUndefined) of
                      Inl e \<Rightarrow> ServerError (Rejected e)
                    | Inr r \<Rightarrow> Joined (meetingInfo m2) (replyAttendee r) True))"
    if "map_of (meetings st2) (MeetingId cm) = Some m2" and "creatorId m2 = JUndefined"
    for st2 m2 gw2 now2 uname
    using that assms(3)
    by (simp add: join_meeting_def send_def getProp_def objectPrototypeKeys_def
        split: option.splits sum.splits)
  ultimately show ?thesis by blast
qed

text \<open>
  The theorem at work: the sample meeting created without \<open>userId\<close>, joined without
  \<open>userId\<close>.
\<close>

theorem omitted_userId_reports_creator_witness:
  "gwAccept (sent initialState) (CreateMeetingCommand ''token-1'' ''us-east-1'' ''external-1'') =
     Inr (MeetingReply (Meeting sampleMeeting)) \<and>
   map_of (meetings anonymousMeeting) ''meeting-1'' = Some (sampleMeeting\<lparr>creatorId := JUndefined\<rparr>) \<and>
   fst (join_meeting gwAccept 1000 (JStr ''meeting-1'') JUndefined JUndefined anonymousMeeting) =
     Joined (meetingInfo sampleMeeting) (Some (ChimeAttendee ''attendee-1'')) True"
proof -
  let ?cm = "Meeting sampleMeeting"
  have created: "gwAccept (sent initialState)
      (CreateMeetingCommand ''token-1'' ''us-east-1'' ''external-1'') = Inr (MeetingReply ?cm)"
    by code_simp
  have id: "MeetingId ?cm = ''meeting-1''"
    by (simp add: sampleMeeting_def)
  have proto: "MeetingId ?cm \<noteq> ''__proto__''" and nonempty: "MeetingId ?cm \<noteq> []"
    by (simp_all add: id)
  have own: "map_of (meetings anonymousMeeting) ''meeting-1'' =
      Some (sampleMeeting\<lparr>creatorId := JUndefined\<rparr>)"
    by code_simp
  have "fst (join_meeting gwAccept 1000 (JStr (MeetingId ?cm)) JUndefined JUndefined anonymousMeeting) =
      (case map_of (attendees (sampleMeeting\<lparr>creatorId := JUndefined\<rparr>)) ''undefined'' of
         Some a \<Rightarrow> Joined (meetingInfo (sampleMeeting\<lparr>creatorId := JUndefined\<rparr>)) (attendeeInfo a) True
       | None \<Rightarrow>
           (case gwAccept (sent anonymousMeeting)
                   (CreateAttendeeCommand (JStr (MeetingId ?cm)) JUndefined) of
              Inl e \<Rightarrow> ServerError (Rejected e)
            | Inr r \<Rightarrow> Joined (meetingInfo (sampleMeeting\<lparr>creatorId := JUndefined\<rparr>)) (replyAttendee r) True))"
    using omitted_userId_reports_creator [where gw = gwAccept and st = initialState,
        OF created proto nonempty, THEN conjunct2, rule_format,
        of anonymousMeeting "sampleMeeting\<lparr>creatorId := JUndefined\<rparr>" gwAccept 1000 JUndefined]
      own
    by (simp add: id)
  then have "fst (join_meeting gwAccept 1000 (JStr ''meeting-1'') JUndefined JUndefined anonymousMeeting) =
     Joined (meetingInfo sampleMeeting) (Some (ChimeAttendee ''attendee-1'')) True"
    by (simp add: id sampleMeeting_def gwAccept_def meetingInfo_def)
  with created own show ?thesis by blast
qed

subsection \<open>Starting and stopping transcription\<close>

text \<open>
  In index.js a start that the gateway rejects for missing permission is answered
  with 403 and leaves the session enabled in mode \<open>Degraded\<close>.
\<close>

lemma start_permission_error_degrades:
  assumes "map_of (meetings st) k = Some m" and "k \<noteq> []"
    and "gw (sent st)
           (StartMeetingTranscriptionCommand (JStr k) (mappedLanguage language)
              (jsOr region (jsOr env (JStr ''us-east-1''))) [(''VocabularyFilterMethod'', ''mask'')])
         = Inl e"
    and "isPermissionError e"
    and "start_transcription gw env (JStr k) region language st = (r, st')"
  shows "r = PermissionError (errorMessage e) \<and> status r = 403 \<and>
         map_of (meetings st') k =
           Some (m\<lparr>transcriptionEnabled := True, transcriptionMethod := Some alternative\<rparr>) \<and>
         map_option modeOf (map_of (meetings st') k) = Some Degraded"
  using assms
  by (auto simp: start_transcription_def send_def getProp_def mutateMeeting_def
      map_of_map_entry modeOf_def)

text \<open>
  C4 (the code departs from the claim). The claim: when the gateway rejects the start
  for missing permission, the session becomes \<open>Degraded\<close> with \<open>enabled = true\<close> and
  the caller gets a degraded outcome, not a hard error. The start handler of
  server.js, on the sample session and a gateway that answers
  \<open>AccessDeniedException\<close>: the response is the 500 error, the session stays
  disabled with no method. The handler of index.js answers the same request
  with 403 and stores the degraded state.
\<close>

theorem server_start_permission_error_is_hard_failure:
  "isPermissionError accessDenied \<and>
   start_transcription_server gwDenied JUndefined (JStr ''meeting-1'') oneMeeting =
     (ServerError (Rejected accessDenied),
      oneMeeting\<lparr>sent := sent oneMeeting @
         [StartMeetingTranscriptionCommand (JStr ''meeting-1'') (LanguageValue (JStr ''es-US''))
            (JStr ''us-east-1'')
            [(''VocabularyFilterMethod'', ''mask''),
             (''EnablePartialResultsStabilization'', ''true''),
             (''PartialResultsStability'', ''high''),
             (''ContentIdentificationType'', ''PII''),
             (''EnablePartialResults'', ''true'')]]\<rparr>) \<and>
   status (fst (start_transcription_server gwDenied JUndefined (JStr ''meeting-1'') oneMeeting)) = 500 \<and>
   map_of (meetings (snd (start_transcription_server gwDenied JUndefined (JStr ''meeting-1'')
      oneMeeting))) ''meeting-1'' = Some sampleMeeting \<and>
   fst (start_transcription gwDenied JUndefined (JStr ''meeting-1'') JUndefined JUndefined oneMeeting) =
     PermissionError ''User is not authorized to perform: chime:StartMeetingTranscription'' \<and>
   map_of (meetings (snd (start_transcription gwDenied JUndefined (JStr ''meeting-1'') JUndefined
      JUndefined oneMeeting))) ''meeting-1'' =
     Some (sampleMeeting\<lparr>transcriptionEnabled := True, transcriptionMethod := Some alternative\<rparr>)"
  by code_simp

text \<open>
  C5. Take a session of the registry whose transcription is enabled. If the
  gateway rejects the stop, the response is the 500 error that carries the
  rejection and the registry is as before, so the session is still enabled. If the
  gateway accepts, the response is the success and the session is stored disabled.
\<close>

theorem stop_failure_keeps_state:
  assumes "map_of (meetings st) k = Some m" and "k \<noteq> []" and "transcriptionEnabled m"
  shows "(gw (sent st) (StopMeetingTranscriptionCommand (JStr k)) = Inl e \<longrightarrow>
            fst (stop_transcription gw (JStr k) st) = ServerError (Rejected e) \<and>
            meetings (snd (stop_transcription gw (JStr k) st)) = meetings st \<and>
            map_option transcriptionEnabled
              (map_of (meetings (snd (stop_transcription gw (JStr k) st))) k) = Some True) \<and>
         (gw (sent st) (StopMeetingTranscriptionCommand (JStr k)) = Inr r \<longrightarrow>
            fst (stop_transcription gw (JStr k) st) = Success \<and>
            map_of (meetings (snd (stop_transcription gw (JStr k) st))) k =
              Some (m\<lparr>transcriptionEnabled := False\<rparr>))"
  using assms
  by (simp add: stop_transcription_def send_def getProp_def mutateMeeting_def map_of_map_entry)

text \<open>
  The theorem at work: the sample session in degraded transcription, stopped while
  the provider is down.
\<close>

theorem stop_failure_keeps_state_witness:
  "map_of (meetings degradedMeeting) ''meeting-1'' =
     Some (sampleMeeting\<lparr>transcriptionEnabled := True, transcriptionMethod := Some alternative\<rparr>) \<and>
   gwReject (sent degradedMeeting) (StopMeetingTranscriptionCommand (JStr ''meeting-1'')) =
     Inl serviceDown \<and>
   fst (stop_transcription gwReject (JStr ''meeting-1'') degradedMeeting) =
     ServerError (Rejected serviceDown) \<and>
   meetings (snd (stop_transcription gwReject (JStr ''meeting-1'') degradedMeeting)) =
     meetings degradedMeeting \<and>
   map_option transcriptionEnabled
     (map_of (meetings (snd (stop_transcription gwReject (JStr ''meeting-1'') degradedMeeting)))
        ''meeting-1'') = Some True"
proof -
  let ?m = "sampleMeeting\<lparr>transcriptionEnabled := True, transcriptionMethod := Some alternative\<rparr>"
  have own: "map_of (meetings degradedMeeting) ''meeting-1'' = Some ?m"
    by code_simp
  have k: "''meeting-1'' \<noteq> []"
    by simp
  have enabled: "transcriptionEnabled ?m"
    by simp
  have fails: "gwReject (sent degradedMeeting) (StopMeetingTranscriptionCommand (JStr ''meeting-1'')) =
     Inl serviceDown"
    by (simp add: gwReject_def)
  from stop_failure_keeps_state [where gw = gwReject and e = serviceDown, OF own k enabled,
      THEN conjunct1, THEN mp, OF fails]
  show ?thesis
    by (intro conjI own fails) (erule conjunct1, erule conjunct2 [THEN conjunct1], erule conjunct2 [THEN conjunct2])
qed

subsection \<open>Removing and creating\<close>

text \<open>
  C6. Take a session of the registry under an id the provider assigned (not empty,
  not the name of a member of \<open>Object.prototype\<close>). Whatever the gateway answers to
  \<open>DeleteMeeting\<close>, the delete handler sends that command, answers with the success
  and drops the entry. From then on join, start, alternative start, stop and both
  delete routes answer 404 for that id and change nothing.
\<close>

theorem remove_unconditional_and_terminal:
  assumes "map_of (meetings st) k = Some m" and "k \<noteq> []" and "k \<notin> set objectPrototypeKeys"
    and "delete_meeting gw k st = (r, st')"
  shows "r = Success \<and>
         sent st' = sent st @ [DeleteMeetingCommand (JStr k)] \<and>
         meetings st' = deleteProp k (meetings st) \<and>
         map_of (meetings st') k = None \<and>
         join_meeting gw2 now (JStr k) uid uname st' = (NotFound, st') \<and>
         start_transcription gw2 env (JStr k) region language st' = (NotFound, st') \<and>
         start_transcription_alternative (JStr k) st' = (NotFound, st') \<and>
         stop_transcription gw2 (JStr k) st' = (NotFound, st') \<and>
         delete_meeting gw2 k st' = (NotFound, st') \<and>
         delete_meeting_post gw2 (JStr k) st' = (NotFound, st')"
proof -
  from assms(1,2,4) have r: "r = Success"
    and st': "st' = st\<lparr>sent := sent st @ [DeleteMeetingCommand (JStr k)],
                     meetings := deleteProp k (meetings st)\<rparr>"
    by (auto simp: delete_meeting_def send_def getProp_def)
  have gone: "getProp (meetings st') k = Missing"
    using assms(3) by (simp add: st' getProp_Missing_iff map_of_deleteProp)
  show ?thesis
    using gone assms(2)
    by (simp add: r join_meeting_def start_transcription_def start_transcription_alternative_def
        stop_transcription_def delete_meeting_def delete_meeting_post_def)
      (simp add: st' map_of_deleteProp)
qed

text \<open>
  The theorem at work: the sample session removed while the provider is down, then
  joined.
\<close>

theorem remove_unconditional_and_terminal_witness:
  "map_of (meetings oneMeeting) ''meeting-1'' = Some sampleMeeting \<and>
   ''meeting-1'' \<notin> set objectPrototypeKeys \<and>
   gwReject (sent oneMeeting) (DeleteMeetingCommand (JStr ''meeting-1'')) = Inl serviceDown \<and>
   fst (delete_meeting gwReject ''meeting-1'' oneMeeting) = Success \<and>
   map_of (meetings (snd (delete_meeting gwReject ''meeting-1'' oneMeeting))) ''meeting-1'' = None \<and>
   join_meeting gwAccept 5000 (JStr ''meeting-1'') (JStr ''u2'') JUndefined
       (snd (delete_meeting gwReject ''meeting-1'' oneMeeting)) =
     (NotFound, snd (delete_meeting gwReject ''meeting-1'' oneMeeting))"
proof -
  have own: "map_of (meetings oneMeeting) ''meeting-1'' = Some sampleMeeting"
    by code_simp
  have k: "''meeting-1'' \<noteq> []"
    by simp
  have name: "''meeting-1'' \<notin> set objectPrototypeKeys"
    by (simp add: objectPrototypeKeys_def)
  have fails: "gwReject (sent oneMeeting) (DeleteMeetingCommand (JStr ''meeting-1'')) = Inl serviceDown"
    by (simp add: gwReject_def)
  have run: "delete_meeting gwReject ''meeting-1'' oneMeeting =
      (fst (delete_meeting gwReject ''meeting-1'' oneMeeting),
       snd (delete_meeting gwReject ''meeting-1'' oneMeeting))"
    by simp
  from remove_unconditional_and_terminal [where gw = gwReject and ?gw2.0 = gwAccept
      and now = 5000 and uid = "JStr ''u2''" and uname = JUndefined, OF own k name run]
  show ?thesis
    using own name fails by blast
qed

text \<open>
  C8. If the gateway rejects \<open>CreateMeeting\<close>, the create handler answers with the
  500 error that carries the rejection and the registry is as before. If the gateway
  returns a meeting, the handler answers with its id and the registry holds under
  that id a session with no attendees and transcription disabled, whose projection
  in the list has \<open>attendeeCount = 0\<close> and \<open>transcriptionEnabled = false\<close>.
\<close>

theorem create_all_or_nothing:
  "(gw (sent st) (CreateMeetingCommand token ''us-east-1'' externalId) = Inl e \<longrightarrow>
      fst (create_meeting gw now token externalId uid st) = ServerError (Rejected e) \<and>
      meetings (snd (create_meeting gw now token externalId uid st)) = meetings st) \<and>
   (gw (sent st) (CreateMeetingCommand token ''us-east-1'' externalId) = Inr (MeetingReply cm) \<and>
    MeetingId cm \<noteq> ''__proto__'' \<longrightarrow>
      fst (create_meeting gw now token externalId uid st) = Created (MeetingId cm) \<and>
      map_of (meetings (snd (create_meeting gw now token externalId uid st))) (MeetingId cm) =
        Some \<lparr>meetingId = MeetingId cm, Meeting = cm, creationTime = toISOString now,
              attendees = [], transcriptionEnabled = False, creatorId = uid,
              transcriptionMethod = None\<rparr> \<and>
      (\<exists>p. projectionOf (snd (create_meeting gw now token externalId uid st)) (MeetingId cm) =
             Some p \<and>
           proj_attendeeCount p = 0 \<and> proj_transcriptionEnabled p = False))"
proof -
  have stored: "map_of (meetings (snd (create_meeting gw now token externalId uid st))) (MeetingId cm) =
        Some \<lparr>meetingId = MeetingId cm, Meeting = cm, creationTime = toISOString now,
              attendees = [], transcriptionEnabled = False, creatorId = uid,
              transcriptionMethod = None\<rparr>"
    if "gw (sent st) (CreateMeetingCommand token ''us-east-1'' externalId) = Inr (MeetingReply cm)"
      and "MeetingId cm \<noteq> ''__proto__''"
    using that by (simp add: create_meeting_def send_def map_of_setProp)
  show ?thesis
    using stored
    by (auto simp: create_meeting_def send_def projectionOf_own projectMeeting_def keys_def)
qed

text \<open>
  The theorem at work: creation on the empty registry, once with the provider down
  and once with the provider accepting.
\<close>

theorem create_all_or_nothing_witness:
  "gwReject (sent initialState) (CreateMeetingCommand ''token-1'' ''us-east-1'' ''external-1'') =
     Inl serviceDown \<and>
   fst (create_meeting gwReject 0 ''token-1'' ''external-1'' (JStr ''u1'') initialState) =
     ServerError (Rejected serviceDown) \<and>
   meetings (snd (create_meeting gwReject 0 ''token-1'' ''external-1'' (JStr ''u1'') initialState)) =
     meetings initialState \<and>
   gwAccept (sent initialState) (CreateMeetingCommand ''token-1'' ''us-east-1'' ''external-1'') =
     Inr (MeetingReply (Meeting sampleMeeting)) \<and>
   fst (create_meeting gwAccept 0 ''token-1'' ''external-1'' (JStr ''u1'') initialState) =
     Created (MeetingId (Meeting sampleMeeting)) \<and>
   (\<exists>p. projectionOf (snd (create_meeting gwAccept 0 ''token-1'' ''external-1'' (JStr ''u1'')
            initialState)) (MeetingId (Meeting sampleMeeting)) = Some p \<and>
        proj_attendeeCount p = 0 \<and> proj_transcriptionEnabled p = False)"
proof -
  have rejected: "gwReject (sent initialState)
      (CreateMeetingCommand ''token-1'' ''us-east-1'' ''external-1'') = Inl serviceDown"
    by (simp add: gwReject_def)
  have accepted: "gwAccept (sent initialState)
      (CreateMeetingCommand ''token-1'' ''us-east-1'' ''external-1'') =
      Inr (MeetingReply (Meeting sampleMeeting))"
    by code_simp
  have proto: "MeetingId (Meeting sampleMeeting) \<noteq> ''__proto__''"
    by (simp add: sampleMeeting_def)
  note failure = create_all_or_nothing [where gw = gwReject and st = initialState
      and e = serviceDown and uid = "JStr ''u1''" and now = 0,
      THEN conjunct1, THEN mp, OF rejected]
  note success = create_all_or_nothing [where gw = gwAccept and st = initialState
      and uid = "JStr ''u1''" and now = 0,
      THEN conjunct2, THEN mp, OF conjI [OF accepted proto]]
  show ?thesis
    using rejected accepted failure success by blast
qed

end
